theory Spec2Isabelle
  imports Main
begin

section \<open>Data model of canaryrouter/server.go\<close>

text \<open>
  The canary router answers each request from one of two backends, main or canary. An
  X-Canary header decides directly; otherwise a sidecar is asked, by replaying the
  request to it, and a bucket of tokens bounds how many requests the sidecar may send to
  canary. This theory follows canaryrouter/server.go function by function. Calls that
  leave the file (the three reverse proxies, the tagging interface, the token bucket) are
  parameters or small models, each introduced where it is first used. Of a request only
  what the router reads or changes is kept; of the configuration only the fields
  server.go reads when a request is routed. The latency marker of the request context
  is left out.

  A request body is a reader over the bytes the client sends. \<open>Body bs None\<close> yields
  \<open>bs\<close> and then the end of input; \<open>Body bs (Some (n, err))\<close> yields the first
  \<open>n\<close> bytes of \<open>bs\<close> and then fails with \<open>err\<close> (the connection breaks, a
  read deadline passes). Reading drains the reader: what has been read cannot be read
  again. A request carries its method, its URL path, the value of the X-Canary header
  (absent or present), its body, and the routing reason attached to its context.
\<close>

type_synonym bytes = string

datatype body = Body (unread: bytes) (failure: "(nat \<times> string) option")

text \<open>ioutil.ReadAll: the bytes read, the error if the read failed, and the reader left behind.\<close>

definition ReadAll :: "body \<Rightarrow> (bytes \<times> string option) \<times> body" where
  "ReadAll b =
     (case failure b of
        None \<Rightarrow> ((unread b, None), Body [] None)
      | Some (n, err) \<Rightarrow> ((take n (unread b), Some err), Body [] (Some (0, err))))"

record request =
  reqMethod :: string
  urlPath :: string
  xCanaryHeader :: "string option"
  reqBody :: body
  reasonTag :: "string option"

text \<open>A value given to panic: a string, an error (by its message), or anything else (by its \<open>%v\<close> rendering).\<close>

datatype panicv = PanicString string | PanicError string | PanicOther string

text \<open>
  The response writer of net/http, as far as the status and the body go. The header is
  sent by the first WriteHeader, with the status code and, where the one who sends it
  declares one, the Content-Length; later WriteHeader calls are ignored; a Write before
  any WriteHeader sends status 200. A Write is dropped as a whole when the status allows
  no body (1xx, 204, 304), when it would pass the declared Content-Length, and when the
  request is a HEAD request. \<open>written\<close> is the body that has gone to the client.
  Header fields that are set but not yet sent are not kept.
\<close>

record writer =
  headOnly :: bool
  header :: "(int \<times> nat option) option"
  written :: string

definition status :: "writer \<Rightarrow> int option" where
  "status w = map_option fst (header w)"

definition WriteHeader :: "writer \<Rightarrow> int \<Rightarrow> writer" where
  "WriteHeader w code = (case header w of None \<Rightarrow> w\<lparr>header := Some (code, None)\<rparr> | Some _ \<Rightarrow> w)"

definition bodyAllowed :: "int \<Rightarrow> bool" where
  "bodyAllowed code = (\<not> (100 \<le> code \<and> code \<le> 199) \<and> code \<noteq> 204 \<and> code \<noteq> 304)"

definition Write :: "writer \<Rightarrow> string \<Rightarrow> writer" where
  "Write w b =
     (let w1 = WriteHeader w 200
      in case header w1 of
           None \<Rightarrow> w1
         | Some (code, declared) \<Rightarrow>
             if \<not> bodyAllowed code then w1
             else if (case declared of None \<Rightarrow> False
                      | Some n \<Rightarrow> n < length (written w1) + length b) then w1
             else if headOnly w1 then w1
             else w1\<lparr>written := written w1 @ b\<rparr>)"

definition http_Error :: "writer \<Rightarrow> string \<Rightarrow> int \<Rightarrow> writer" where
  "http_Error w msg code = Write (WriteHeader w code) (msg @ [CHR 0x0A])"

definition StatusInternalServerError :: int where
  "StatusInternalServerError = 500"

text \<open>httptest.ResponseRecorder: the in-memory sink of the sidecar call.\<close>

record recorder =
  Code :: int
  RBody :: string

definition NewRecorder :: recorder where
  "NewRecorder = \<lparr>Code = 200, RBody = []\<rparr>"

definition StatusSidecarError :: int where
  "StatusSidecarError = 503"

text \<open>What one round trip of the sidecar reverse proxy ends in.\<close>

datatype reply = Responded int string | TransportFailure string | Panicked panicv

datatype logentry =
    LogRouted string request
  | LogSidecarError string
  | LogTagError string
  | LogPanic panicv request

text \<open>
  The collaborators outside this file are parameters: the two status codes of the
  sidecar protocol (package constants declared elsewhere), what each reverse proxy does
  with a request (a backend may write to the client and may panic, before or after
  writing), what the sidecar answers, which reason texts the tagging backend refuses,
  and which target URLs parse.
\<close>

record env =
  StatusCodeMain :: int
  StatusCodeCanary :: int
  mainProxy :: "request \<Rightarrow> writer \<Rightarrow> panicv option \<times> writer"
  canaryProxy :: "request \<Rightarrow> writer \<Rightarrow> panicv option \<times> writer"
  sidecarRoundTrip :: "request \<Rightarrow> reply"
  tagRefused :: "string \<Rightarrow> bool"
  urlParses :: "string \<Rightarrow> bool"

text \<open>
  RequestLimitCanary is the limit as NewServer passes it to the bucket, after the
  conversion to int64; 0 means no limit.
\<close>

record Config =
  MainTarget :: string
  CanaryTarget :: string
  SidecarURL :: string
  TrimPrefix :: string
  RequestLimitCanary :: int

record Server =
  version :: string
  config :: Config
  canaryBucket :: "int option"

text \<open>
  Everything one request's handling does to the outside, in the order it happens per
  field: the response written to the client, the requests handed to a backend (with the
  target name), the reason texts handed to the tagging interface, the requests replayed
  to the sidecar, the target and version tags recorded, and the log.
\<close>

record effects =
  resp :: writer
  forwarded :: "(string \<times> request) list"
  reasons :: "string list"
  sidecarCalls :: "request list"
  metrics :: "(string \<times> string) list"
  logs :: "logentry list"

definition noEffects :: effects where
  "noEffects = \<lparr>resp = \<lparr>headOnly = False, header = None, written = []\<rparr>,
     forwarded = [], reasons = [], sidecarCalls = [], metrics = [], logs = []\<rparr>"

text \<open>Where the handling of a request starts: nothing done yet, and a writer that knows the request's method.\<close>

definition startEffects :: "request \<Rightarrow> effects" where
  "startEffects req = noEffects\<lparr>resp := (resp noEffects)\<lparr>headOnly := (reqMethod req = ''HEAD'')\<rparr>\<rparr>"

section \<open>The canary bucket\<close>

text \<open>
  Modelled from the spec: the token bucket behind \<open>canaryBucket\<close> (package ratelimit) is
  not in this repository's sources. Section 4.2 of the specification gives its contract:
  the remaining count is read by \<open>Available\<close>; \<open>TakeAvailable\<close> takes tokens only while
  the count is above zero and reports how many it took; with the fill interval
  \<open>infinityDuration\<close> the bucket is never replenished.
\<close>

definition NewBucket :: "int \<Rightarrow> int" where
  "NewBucket capacity = capacity"

definition Available :: "int \<Rightarrow> int" where
  "Available b = b"

definition TakeAvailable :: "int \<Rightarrow> int \<Rightarrow> int \<times> int" where
  "TakeAvailable b count =
     (if count \<le> 0 \<or> b \<le> 0 then (0, b)
      else let taken = min count b in (taken, b - taken))"

section \<open>Construction\<close>

definition isSidecarProvided :: "Server \<Rightarrow> bool" where
  "isSidecarProvided s = (SidecarURL (config s) \<noteq> [])"

definition IsCanaryLimited :: "Server \<Rightarrow> bool" where
  "IsCanaryLimited s = (canaryBucket s \<noteq> None)"

definition NewServer :: "env \<Rightarrow> Config \<Rightarrow> string \<Rightarrow> string + Server" where
  "NewServer e cfg ver =
     (if \<not> urlParses e (MainTarget cfg) then Inl (MainTarget cfg)
      else if \<not> urlParses e (CanaryTarget cfg) then Inl (CanaryTarget cfg)
      else if SidecarURL cfg \<noteq> [] \<and> \<not> urlParses e (SidecarURL cfg) then Inl (SidecarURL cfg)
      else Inr \<lparr>version = ver, config = cfg,
                canaryBucket = (if RequestLimitCanary cfg \<noteq> 0
                                then Some (NewBucket (RequestLimitCanary cfg)) else None)\<rparr>)"

section \<open>Helpers\<close>

definition convertToBool :: "string \<Rightarrow> string + bool" where
  "convertToBool boolStr =
     (if boolStr = ''true'' \<or> boolStr = ''false'' then Inr (boolStr = ''true'')
      else Inl (''neither '' @ [CHR 0x27] @ ''true'' @ [CHR 0x27] @ '' nor '' @ [CHR 0x27] @ ''false'' @ [CHR 0x27]))"

definition Header_Get :: "string option \<Rightarrow> string" where
  "Header_Get h = (case h of None \<Rightarrow> [] | Some v \<Rightarrow> v)"

definition TrimPrefix_str :: "string \<Rightarrow> string \<Rightarrow> string" where
  "TrimPrefix_str s prefix =
     (if take (length prefix) s = prefix then drop (length prefix) s else s)"

definition trimRequestPathPrefix :: "request \<Rightarrow> string \<Rightarrow> string" where
  "trimRequestPathPrefix req prefix = TrimPrefix_str (urlPath req) prefix"

text \<open>\<open>%d\<close> of fmt.Sprintf.\<close>

fun digits :: "nat \<Rightarrow> string" where
  "digits n = (if n < 10 then [''0123456789'' ! n]
               else digits (n div 10) @ [''0123456789'' ! (n mod 10)])"

declare digits.simps [simp del]

definition fmt_d :: "int \<Rightarrow> string" where
  "fmt_d i = (if i < 0 then CHR ''-'' # digits (nat (- i)) else digits (nat i))"

text \<open>
  Modelled from the spec: instrumentation.AddReasonTag is not in this repository's
  sources. Section 6 says it attaches the text to the context and may fail without
  aborting the request.
\<close>

definition AddReasonTag :: "env \<Rightarrow> request \<Rightarrow> string \<Rightarrow> string + request" where
  "AddReasonTag e req reason =
     (if tagRefused e reason then Inl reason else Inr (req\<lparr>reasonTag := Some reason\<rparr>))"

text \<open>The callers format the reason before the call, so the arguments of Sprintf are already in the text.\<close>

definition setRoutingReason :: "env \<Rightarrow> request \<Rightarrow> string \<Rightarrow> effects \<Rightarrow> request \<times> effects" where
  "setRoutingReason e req reason fx =
     (let fx1 = fx\<lparr>reasons := reasons fx @ [reason]\<rparr>
      in case AddReasonTag e req reason of
           Inl err \<Rightarrow> (req, fx1\<lparr>logs := logs fx1 @ [LogTagError err]\<rparr>)
         | Inr req' \<Rightarrow> (req', fx1))"

text \<open>The target and version tags and the latency record; a tag that fails is only logged by the source.\<close>

definition recordMetricTarget :: "Server \<Rightarrow> string \<Rightarrow> effects \<Rightarrow> effects" where
  "recordMetricTarget s target fx = fx\<lparr>metrics := metrics fx @ [(target, version s)]\<rparr>"

section \<open>Dispatch\<close>

text \<open>The deferred recordMetricTarget runs whether the proxy returns or panics.\<close>

definition serveMain :: "env \<Rightarrow> Server \<Rightarrow> request \<Rightarrow> effects \<Rightarrow> panicv option \<times> effects" where
  "serveMain e s req fx =
     (let fx1 = fx\<lparr>logs := logs fx @ [LogRouted ''main'' req],
                   forwarded := forwarded fx @ [(''main'', req)]\<rparr>;
          (p, w') = mainProxy e req (resp fx1)
      in (p, recordMetricTarget s ''main'' (fx1\<lparr>resp := w'\<rparr>)))"

definition serveCanary :: "env \<Rightarrow> Server \<Rightarrow> request \<Rightarrow> effects \<Rightarrow> panicv option \<times> effects" where
  "serveCanary e s req fx =
     (let fx1 = fx\<lparr>logs := logs fx @ [LogRouted ''canary'' req],
                   forwarded := forwarded fx @ [(''canary'', req)]\<rparr>;
          (p, w') = canaryProxy e req (resp fx1)
      in (p, recordMetricTarget s ''canary'' (fx1\<lparr>resp := w'\<rparr>)))"

section \<open>The sidecar call\<close>

definition ErrorHandler :: "recorder \<Rightarrow> string \<Rightarrow> recorder" where
  "ErrorHandler r err = r\<lparr>Code := StatusSidecarError, RBody := RBody r @ err\<rparr>"

definition sidecarProxy_ServeHTTP :: "env \<Rightarrow> recorder \<Rightarrow> request \<Rightarrow> panicv + recorder" where
  "sidecarProxy_ServeHTTP e r outreq =
     (case sidecarRoundTrip e outreq of
        Responded c b \<Rightarrow> Inr (r\<lparr>Code := c, RBody := RBody r @ b\<rparr>)
      | TransportFailure err \<Rightarrow> Inr (ErrorHandler r err)
      | Panicked p \<Rightarrow> Inl p)"

text \<open>
  callSidecar reads the caller's body to its end through a TeeReader, which copies what
  is read into \<open>bodyBuffer\<close> and leaves the caller's reader drained. It returns the
  status code and the error (by its message), or panics; on every exit the deferred
  function replaces the drained reader on the caller's request by a fresh reader over
  \<open>bodyBuffer\<close>. The caller's request is returned as the second component.
\<close>

definition callSidecar ::
  "env \<Rightarrow> request \<Rightarrow> effects \<Rightarrow> (panicv + int \<times> string option) \<times> request \<times> effects" where
  "callSidecar e req fx =
     (let ((outBody, err), drained) = ReadAll (reqBody req);
          bodyBuffer = outBody;
          req1 = req\<lparr>reqBody := drained\<rparr>;
          restored = req1\<lparr>reqBody := Body bodyBuffer None\<rparr>
      in case err of
           Some er \<Rightarrow> (Inr (0, Some er), restored, fx)
         | None \<Rightarrow>
             (let outreq = req1\<lparr>reqBody := Body outBody None\<rparr>;
                  fx1 = fx\<lparr>sidecarCalls := sidecarCalls fx @ [outreq]\<rparr>
              in case sidecarProxy_ServeHTTP e NewRecorder outreq of
                   Inl p \<Rightarrow> (Inl p, restored, fx1)
                 | Inr r \<Rightarrow>
                     if Code r = StatusSidecarError
                     then (Inr (Code r, Some (RBody r)), restored, fx1)
                     else (Inr (Code r, None), restored, fx1)))"

text \<open>The request as the sidecar and, after the call, the handler see it: the bytes that were read, unread again.\<close>

definition replayed :: "request \<Rightarrow> request" where
  "replayed req = req\<lparr>reqBody := Body (fst (fst (ReadAll (reqBody req)))) None\<rparr>"

section \<open>Routing with a sidecar\<close>

text \<open>
  The handler returned by viaProxyWithSidecar touches the shared bucket twice, once
  before and once after the sidecar call, and other requests run in between. Its body
  is therefore given in three blocks: the pre-check (reads the bucket), the sidecar
  call with its error branch, and the switch on the status code (takes from the
  bucket). A block that ends the handler gives the panic value, if any, that leaves it.
\<close>

definition precheck :: "env \<Rightarrow> Server \<Rightarrow> request \<Rightarrow> effects \<Rightarrow> (panicv option \<times> effects) option" where
  "precheck e s req fx =
     (if IsCanaryLimited s \<and> (case canaryBucket s of None \<Rightarrow> False | Some b \<Rightarrow> Available b \<le> 0)
      then (let (req1, fx1) = setRoutingReason e req ''Canary limit reached'' fx
            in Some (serveMain e s req1 fx1))
      else None)"

definition consult ::
  "env \<Rightarrow> Server \<Rightarrow> request \<Rightarrow> effects \<Rightarrow> (panicv option + int) \<times> request \<times> effects" where
  "consult e s req fx =
     (case callSidecar e req fx of
        (Inl p, req1, fx1) \<Rightarrow> (Inl (Some p), req1, fx1)
      | (Inr (statusCode, Some err), req1, fx1) \<Rightarrow>
          (let (req2, fx2) = setRoutingReason e req1 err fx1;
               fx3 = fx2\<lparr>logs := logs fx2 @ [LogSidecarError err]\<rparr>;
               (p, fx4) = serveMain e s req2 fx3
           in (Inl p, req1, fx4))
      | (Inr (statusCode, None), req1, fx1) \<Rightarrow> (Inr statusCode, req1, fx1))"

definition route ::
  "env \<Rightarrow> Server \<Rightarrow> int \<Rightarrow> request \<Rightarrow> effects \<Rightarrow> Server \<times> panicv option \<times> effects" where
  "route e s statusCode req fx =
     (if statusCode = StatusCodeMain e then
        (let (req1, fx1) = setRoutingReason e req (''Sidecar returns status code '' @ fmt_d statusCode) fx;
             (p, fx2) = serveMain e s req1 fx1
         in (s, p, fx2))
      else if statusCode = StatusCodeCanary e then
        (case canaryBucket s of
           Some b \<Rightarrow>
             (let (taken, b') = TakeAvailable b 1;
                  s' = s\<lparr>canaryBucket := Some b'\<rparr>
              in if taken = 0 then
                   (let (req1, fx1) = setRoutingReason e req
                          (''Sidecar returns status code '' @ fmt_d statusCode @ '', but canary limit reached'') fx;
                        (p, fx2) = serveMain e s' req1 fx1
                    in (s', p, fx2))
                 else
                   (let (req1, fx1) = setRoutingReason e req (''Sidecar returns status code '' @ fmt_d statusCode) fx;
                        (p, fx2) = serveCanary e s' req1 fx1
                    in (s', p, fx2)))
         | None \<Rightarrow>
             (let (req1, fx1) = setRoutingReason e req (''Sidecar returns status code '' @ fmt_d statusCode) fx;
                  (p, fx2) = serveCanary e s req1 fx1
              in (s, p, fx2)))
      else
        (let (req1, fx1) = setRoutingReason e req
               (''Sidecar returns non standard status code '' @ fmt_d statusCode) fx;
             (p, fx2) = serveMain e s req1 fx1
         in (s, p, fx2)))"

text \<open>
  The handler run without interruption. The request returned is the caller's request
  object, whose body callSidecar has replaced in place.
\<close>

definition viaProxyWithSidecar ::
  "env \<Rightarrow> Server \<Rightarrow> request \<Rightarrow> effects \<Rightarrow> Server \<times> panicv option \<times> request \<times> effects" where
  "viaProxyWithSidecar e s req fx =
     (case precheck e s req fx of
        Some (p, fx1) \<Rightarrow> (s, p, req, fx1)
      | None \<Rightarrow>
          (case consult e s req fx of
             (Inl p, req1, fx1) \<Rightarrow> (s, p, req1, fx1)
           | (Inr statusCode, req1, fx1) \<Rightarrow>
               (let (s', p, fx2) = route e s statusCode req1 fx1 in (s', p, req1, fx2))))"

section \<open>The handler and its panic guard\<close>

definition panicError :: "panicv \<Rightarrow> string" where
  "panicError r = (case r of PanicString t \<Rightarrow> t | PanicError t \<Rightarrow> t
                   | PanicOther v \<Rightarrow> ''Unknown error: '' @ v)"

text \<open>
  The deferred function of viaProxy: \<open>r\<close> is what recover() returns, \<open>req\<close> the
  handler's request. The first component of the result is the panic that goes on
  unwinding once the deferred function has run: recover() is called on every path and
  every case of the type switch ends normally, so there is none.
\<close>

definition recovered :: "panicv option \<Rightarrow> request \<Rightarrow> effects \<Rightarrow> panicv option \<times> effects" where
  "recovered r req fx =
     (case r of
        None \<Rightarrow> (None, fx)
      | Some p \<Rightarrow> (None, fx\<lparr>logs := logs fx @ [LogPanic p req],
                     resp := http_Error (resp fx) (panicError p) StatusInternalServerError\<rparr>))"

definition trimmed :: "Server \<Rightarrow> request \<Rightarrow> request" where
  "trimmed s req = req\<lparr>urlPath := trimRequestPathPrefix req (TrimPrefix (config s))\<rparr>"

definition xCanaryReason :: "string \<Rightarrow> string" where
  "xCanaryReason xCanaryVal = ''Routed via X-Canary header value: '' @ xCanaryVal"

text \<open>The handler function viaProxy chooses when it is called: serveMain without a sidecar.\<close>

definition handlerFunc ::
  "env \<Rightarrow> Server \<Rightarrow> request \<Rightarrow> effects \<Rightarrow> Server \<times> panicv option \<times> request \<times> effects" where
  "handlerFunc e s req fx =
     (if \<not> isSidecarProvided s
      then (let (p, fx1) = serveMain e s req fx in (s, p, req, fx1))
      else viaProxyWithSidecar e s req fx)"

text \<open>The body of the handler, before the guard: it may end in a panic.\<close>

definition pipeline ::
  "env \<Rightarrow> Server \<Rightarrow> request \<Rightarrow> effects \<Rightarrow> Server \<times> panicv option \<times> request \<times> effects" where
  "pipeline e s req0 fx =
     (let req = trimmed s req0;
          xCanaryVal = Header_Get (xCanaryHeader req)
      in case convertToBool xCanaryVal of
           Inr xCanary \<Rightarrow>
             (let (req1, fx1) = setRoutingReason e req (xCanaryReason xCanaryVal) fx;
                  (p, fx2) = (if xCanary then serveCanary e s req1 fx1 else serveMain e s req1 fx1)
              in (s, p, req1, fx2))
         | Inl err \<Rightarrow> handlerFunc e s req fx)"

text \<open>
  The handler viaProxy returns: the server, the panic that leaves the handler (if any)
  and the effects.
\<close>

definition viaProxy ::
  "env \<Rightarrow> Server \<Rightarrow> request \<Rightarrow> effects \<Rightarrow> Server \<times> panicv option \<times> effects" where
  "viaProxy e s req0 fx =
     (let (s', p, req, fx1) = pipeline e s req0 fx in (s', recovered p req fx1))"

definition ServeHTTP :: "env \<Rightarrow> Server \<Rightarrow> request \<Rightarrow> Server \<times> panicv option \<times> effects" where
  "ServeHTTP e s req = viaProxy e s req (startEffects req)"

section \<open>Concurrent requests\<close>

text \<open>
  Each request is handled by its own task. A task is at the entry of the handler, about
  to call the sidecar, about to switch on the status code it got, finished, or unwound
  by a panic that left its handler. One step
  of a task runs the handler up to its next access to the bucket, which the steps of
  other tasks may have changed in between. A step reads or takes from the bucket at
  most once, and the bucket serialises its operations, so running a step as a whole
  loses no interleaving of the bucket's operations.
\<close>

datatype phase = AtEntry | AtSidecar | AtSwitch int | Finished | Unwound panicv

record task =
  phase :: phase
  treq :: request
  tfx :: effects

definition newTask :: "request \<Rightarrow> task" where
  "newTask req = \<lparr>phase = AtEntry, treq = req, tfx = startEffects req\<rparr>"

definition finish :: "panicv option \<Rightarrow> request \<Rightarrow> effects \<Rightarrow> task" where
  "finish p req fx =
     (let (left, fx1) = recovered p req fx
      in \<lparr>phase = (case left of None \<Rightarrow> Finished | Some v \<Rightarrow> Unwound v), treq = req, tfx = fx1\<rparr>)"

definition advance :: "env \<Rightarrow> Server \<Rightarrow> task \<Rightarrow> Server \<times> task" where
  "advance e s t =
     (case phase t of
        AtEntry \<Rightarrow>
          (let req = trimmed s (treq t);
               xCanaryVal = Header_Get (xCanaryHeader req)
           in case convertToBool xCanaryVal of
                Inr xCanary \<Rightarrow>
                  (let (req1, fx1) = setRoutingReason e req (xCanaryReason xCanaryVal) (tfx t);
                       (p, fx2) = (if xCanary then serveCanary e s req1 fx1 else serveMain e s req1 fx1)
                   in (s, finish p req1 fx2))
              | Inl err \<Rightarrow>
                  (if \<not> isSidecarProvided s
                   then (let (p, fx1) = serveMain e s req (tfx t) in (s, finish p req fx1))
                   else (case precheck e s req (tfx t) of
                           Some (p, fx1) \<Rightarrow> (s, finish p req fx1)
                         | None \<Rightarrow> (s, t\<lparr>phase := AtSidecar, treq := req\<rparr>))))
      | AtSidecar \<Rightarrow>
          (case consult e s (treq t) (tfx t) of
             (Inl p, req1, fx1) \<Rightarrow> (s, finish p req1 fx1)
           | (Inr statusCode, req1, fx1) \<Rightarrow> (s, \<lparr>phase = AtSwitch statusCode, treq = req1, tfx = fx1\<rparr>))
      | AtSwitch statusCode \<Rightarrow>
          (let (s', p, fx1) = route e s statusCode (treq t) (tfx t) in (s', finish p (treq t) fx1))
      | Finished \<Rightarrow> (s, t)
      | Unwound v \<Rightarrow> (s, t))"

text \<open>An interleaving is the list of task numbers in the order in which the tasks take their steps.\<close>

fun run :: "env \<Rightarrow> nat list \<Rightarrow> Server \<times> task list \<Rightarrow> Server \<times> task list" where
  "run e [] g = g"
| "run e (i # sched) (s, ts) =
     (if i < length ts
      then (let (s', t') = advance e s (ts ! i) in run e sched (s', ts[i := t']))
      else run e sched (s, ts))"

text \<open>Requests served one after the other, each to completion.\<close>

fun serveAll :: "env \<Rightarrow> Server \<Rightarrow> request list \<Rightarrow> Server \<times> effects list" where
  "serveAll e s [] = (s, [])"
| "serveAll e s (req # reqs) =
     (let (s1, left, fx) = ServeHTTP e s req; (s2, fxs) = serveAll e s1 reqs in (s2, fx # fxs))"

section \<open>Observations on a run\<close>

text \<open>
  A request sent to the canary backend on the sidecar's decision: the override path
  is the only other way to canary, and it is taken exactly when the header is \<open>true\<close>.
\<close>

definition viaDecision :: "string \<times> request \<Rightarrow> bool" where
  "viaDecision fr = (fst fr = ''canary'' \<and> Header_Get (xCanaryHeader (snd fr)) \<noteq> ''true'')"

definition canaryDecided :: "task \<Rightarrow> nat" where
  "canaryDecided t = length (filter viaDecision (forwarded (tfx t)))"

definition canaryByDecision :: "task list \<Rightarrow> nat" where
  "canaryByDecision ts = sum_list (map canaryDecided ts)"

definition canaryCount :: "effects \<Rightarrow> nat" where
  "canaryCount fx = length (filter (\<lambda>fr. fst fr = ''canary'') (forwarded fx))"

definition canaryTotal :: "effects list \<Rightarrow> nat" where
  "canaryTotal fxs = sum_list (map canaryCount fxs)"

text \<open>A task past the entry block handles a request whose header did not force canary.\<close>

definition noOverride :: "task \<Rightarrow> bool" where
  "noOverride t = (phase t = AtEntry \<or> phase t = Finished
                   \<or> Header_Get (xCanaryHeader (treq t)) \<noteq> ''true'')"

text \<open>
  What a backend that reads the body of \<open>r\<close> gets, against the request \<open>req\<close> as it came
  in: the bytes a read of the incoming body yields, and the very same reader when the
  incoming body reads to its end without error.
\<close>

definition sameBody :: "request \<Rightarrow> request \<Rightarrow> bool" where
  "sameBody req r = (fst (fst (ReadAll (reqBody r))) = fst (fst (ReadAll (reqBody req)))
      \<and> (failure (reqBody req) = None \<longrightarrow> reqBody r = reqBody req))"


section \<open>A sample deployment\<close>

text \<open>
  Concrete collaborators on which the results below are run: the sidecar answers by
  the path it is asked for, the main backend fails on two paths, once before and once
  after it has begun its response (with status 200, a declared length of 20 bytes and
  the first 7 of them sent).
\<close>

definition demoEnv :: env where
  "demoEnv = \<lparr>StatusCodeMain = 204, StatusCodeCanary = 200,
     mainProxy = (\<lambda>req w.
        if urlPath req = ''/boom'' then (Some (PanicString ''boom''), w)
        else if urlPath req = ''/abort''
          then (Some (PanicError ''net/http: abort Handler''),
                Write (w\<lparr>header := Some (200, Some 20)\<rparr>) ''partial'')
        else (None, Write (WriteHeader w 200) ''from main'')),
     canaryProxy = (\<lambda>req w. (None, Write (WriteHeader w 200) ''from canary'')),
     sidecarRoundTrip = (\<lambda>req.
        if urlPath req = ''/canary'' then Responded 200 []
        else if urlPath req = ''/main'' then Responded 204 []
        else if urlPath req = ''/teapot'' then Responded 418 ''short and stout''
        else if urlPath req = ''/busy'' then Responded 503 ''timeout''
        else TransportFailure ''connection refused''),
     tagRefused = (\<lambda>reason. False),
     urlParses = (\<lambda>u. True)\<rparr>"

definition demoConfig :: Config where
  "demoConfig = \<lparr>MainTarget = ''http://main'', CanaryTarget = ''http://canary'',
     SidecarURL = ''http://sidecar'', TrimPrefix = ''/api'', RequestLimitCanary = 1\<rparr>"

definition demoServer :: Server where
  "demoServer = \<lparr>version = ''v1'', config = demoConfig, canaryBucket = Some 1\<rparr>"

definition spentServer :: Server where
  "spentServer = \<lparr>version = ''v1'', config = demoConfig, canaryBucket = Some 0\<rparr>"

definition plainServer :: Server where
  "plainServer = \<lparr>version = ''v1'', config = demoConfig\<lparr>SidecarURL := []\<rparr>, canaryBucket = Some 1\<rparr>"

definition demoRequest :: "string \<Rightarrow> string option \<Rightarrow> request" where
  "demoRequest p h = \<lparr>reqMethod = ''GET'', urlPath = p, xCanaryHeader = h,
     reqBody = Body ''payload'' None, reasonTag = None\<rparr>"

definition switchTask :: task where
  "switchTask = \<lparr>phase = AtSwitch 200, treq = demoRequest ''/canary'' None, tfx = noEffects\<rparr>"

text \<open>A request of whose body \<open>payload\<close> only the first four bytes arrive before the read fails.\<close>

definition cutRequest :: request where
  "cutRequest = \<lparr>reqMethod = ''POST'', urlPath = ''/api/canary'', xCanaryHeader = None,
     reqBody = Body ''payload'' (Some (4, ''i/o timeout'')), reasonTag = None\<rparr>"

definition headRequest :: request where
  "headRequest = \<lparr>reqMethod = ''HEAD'', urlPath = ''/boom'', xCanaryHeader = None,
     reqBody = Body [] None, reasonTag = None\<rparr>"

section \<open>Facts about the building blocks\<close>

lemmas eval_defs = ReadAll_def status_def WriteHeader_def bodyAllowed_def Write_def http_Error_def
  StatusInternalServerError_def startEffects_def headRequest_def sameBody_def
  NewRecorder_def StatusSidecarError_def noEffects_def NewBucket_def Available_def TakeAvailable_def
  isSidecarProvided_def IsCanaryLimited_def NewServer_def convertToBool_def Header_Get_def
  TrimPrefix_str_def trimRequestPathPrefix_def fmt_d_def AddReasonTag_def setRoutingReason_def
  recordMetricTarget_def serveMain_def serveCanary_def ErrorHandler_def sidecarProxy_ServeHTTP_def
  callSidecar_def replayed_def precheck_def consult_def route_def viaProxyWithSidecar_def
  panicError_def recovered_def trimmed_def xCanaryReason_def handlerFunc_def pipeline_def
  viaProxy_def ServeHTTP_def newTask_def finish_def advance_def viaDecision_def canaryDecided_def
  canaryByDecision_def canaryCount_def canaryTotal_def demoEnv_def demoConfig_def demoServer_def
  spentServer_def plainServer_def demoRequest_def switchTask_def cutRequest_def Let_def digits.simps

lemma setRoutingReason_fx:
  "snd (setRoutingReason e req r fx) =
     (if tagRefused e r then fx\<lparr>reasons := reasons fx @ [r], logs := logs fx @ [LogTagError r]\<rparr>
      else fx\<lparr>reasons := reasons fx @ [r]\<rparr>)"
  by (simp add: setRoutingReason_def AddReasonTag_def Let_def)

lemma setRoutingReason_req:
  "fst (setRoutingReason e req r fx) = (if tagRefused e r then req else req\<lparr>reasonTag := Some r\<rparr>)"
  by (simp add: setRoutingReason_def AddReasonTag_def Let_def)

lemma setRoutingReason_keeps [simp]:
  "reqBody (fst (setRoutingReason e req r fx)) = reqBody req"
  "xCanaryHeader (fst (setRoutingReason e req r fx)) = xCanaryHeader req"
  "forwarded (snd (setRoutingReason e req r fx)) = forwarded fx"
  by (simp_all add: setRoutingReason_req setRoutingReason_fx)

lemma serveMain_fx:
  "snd (serveMain e s req fx) =
     fx\<lparr>logs := logs fx @ [LogRouted ''main'' req], forwarded := forwarded fx @ [(''main'', req)],
        resp := snd (mainProxy e req (resp fx)), metrics := metrics fx @ [(''main'', version s)]\<rparr>"
  by (simp add: serveMain_def recordMetricTarget_def Let_def split: prod.splits)

lemma serveMain_panic: "fst (serveMain e s req fx) = fst (mainProxy e req (resp fx))"
  by (simp add: serveMain_def Let_def split: prod.splits)

lemma serveCanary_fx:
  "snd (serveCanary e s req fx) =
     fx\<lparr>logs := logs fx @ [LogRouted ''canary'' req], forwarded := forwarded fx @ [(''canary'', req)],
        resp := snd (canaryProxy e req (resp fx)), metrics := metrics fx @ [(''canary'', version s)]\<rparr>"
  by (simp add: serveCanary_def recordMetricTarget_def Let_def split: prod.splits)

lemma serveMain_forwarded [simp]:
  "forwarded (snd (serveMain e s req fx)) = forwarded fx @ [(''main'', req)]"
  by (simp add: serveMain_fx)

lemma serveCanary_forwarded [simp]:
  "forwarded (snd (serveCanary e s req fx)) = forwarded fx @ [(''canary'', req)]"
  by (simp add: serveCanary_fx)

lemma recovered_fields [simp]:
  "fst (recovered p req fx) = None"
  "forwarded (snd (recovered p req fx)) = forwarded fx"
  "reasons (snd (recovered p req fx)) = reasons fx"
  "sidecarCalls (snd (recovered p req fx)) = sidecarCalls fx"
  "metrics (snd (recovered p req fx)) = metrics fx"
  by (simp_all add: recovered_def split: option.splits)

lemma recovered_None [simp]: "recovered None req fx = (None, fx)"
  by (simp add: recovered_def)

lemma recovered_eq [simp]:
  "(recovered p req fx = (None, fx')) = (fx' = snd (recovered p req fx))"
  by (auto simp add: recovered_def split: option.splits)

lemma trimmed_fields [simp]:
  "reqBody (trimmed s req) = reqBody req" "xCanaryHeader (trimmed s req) = xCanaryHeader req"
  by (simp_all add: trimmed_def)

lemma finish_fields [simp]:
  "phase (finish p req fx) = Finished" "forwarded (tfx (finish p req fx)) = forwarded fx"
  "reasons (tfx (finish p req fx)) = reasons fx" "treq (finish p req fx) = req"
  "tfx (finish p req fx) = snd (recovered p req fx)"
  by (simp_all add: finish_def split_beta)

lemma advance_finish [simp]: "advance e s (finish p req fx) = (s, finish p req fx)"
  by (simp add: advance_def)

text \<open>Without a valid override the guarded handler is the handler function chosen by viaProxy.\<close>

lemma no_override:
  assumes "xCanaryHeader req \<noteq> Some ''true''" and "xCanaryHeader req \<noteq> Some ''false''"
  shows "viaProxy e s req fx =
           (let (s', p, r, fx1) = handlerFunc e s (trimmed s req) fx in (s', recovered p r fx1))"
proof -
  have "Header_Get (xCanaryHeader (trimmed s req)) \<noteq> ''true''"
       "Header_Get (xCanaryHeader (trimmed s req)) \<noteq> ''false''"
    using assms by (auto simp add: Header_Get_def split: option.splits)
  then show ?thesis
    by (simp add: viaProxy_def pipeline_def Let_def convertToBool_def)
qed

lemma callSidecar_ok:
  "failure (reqBody req) = None \<Longrightarrow>
   callSidecar e req fx =
     (case sidecarRoundTrip e (replayed req) of
        Responded c b \<Rightarrow> if c = StatusSidecarError then Inr (c, Some b) else Inr (c, None)
      | TransportFailure err \<Rightarrow> Inr (StatusSidecarError, Some err)
      | Panicked p \<Rightarrow> Inl p,
      replayed req, fx\<lparr>sidecarCalls := sidecarCalls fx @ [replayed req]\<rparr>)"
  by (simp add: callSidecar_def ReadAll_def Let_def replayed_def sidecarProxy_ServeHTTP_def
        ErrorHandler_def NewRecorder_def split: reply.splits)

lemma callSidecar_restores:
  "reqBody (fst (snd (callSidecar e req fx))) = Body (fst (fst (ReadAll (reqBody req)))) None"
  "xCanaryHeader (fst (snd (callSidecar e req fx))) = xCanaryHeader req"
  "forwarded (snd (snd (callSidecar e req fx))) = forwarded fx"
  by (simp_all add: callSidecar_def Let_def split_beta split: option.splits sum.splits)

lemma precheck_pass:
  "\<forall>b. canaryBucket s = Some b \<longrightarrow> 0 < b \<Longrightarrow> precheck e s req fx = None"
  by (auto simp add: precheck_def Available_def split: option.splits)

lemma precheck_stops:
  "precheck e s req fx = Some out \<Longrightarrow>
     \<exists>r. forwarded (snd out) = forwarded fx @ [(''main'', r)] \<and> reqBody r = reqBody req
          \<and> xCanaryHeader r = xCanaryHeader req"
  by (auto simp add: precheck_def split_beta split: if_splits)

lemma consult_fields:
  "reqBody (fst (snd (consult e s req fx))) = Body (fst (fst (ReadAll (reqBody req)))) None
   \<and> xCanaryHeader (fst (snd (consult e s req fx))) = xCanaryHeader req
   \<and> (case fst (consult e s req fx) of
        Inr c \<Rightarrow> forwarded (snd (snd (consult e s req fx))) = forwarded fx
      | Inl p \<Rightarrow> forwarded (snd (snd (consult e s req fx))) = forwarded fx \<or>
          (\<exists>r. forwarded (snd (snd (consult e s req fx))) = forwarded fx @ [(''main'', r)]
                \<and> reqBody r = Body (fst (fst (ReadAll (reqBody req)))) None
                \<and> xCanaryHeader r = xCanaryHeader req))"
proof -
  obtain a b c where cs: "callSidecar e req fx = (a, b, c)"
    by (cases "callSidecar e req fx") auto
  have "reqBody b = Body (fst (fst (ReadAll (reqBody req)))) None" "xCanaryHeader b = xCanaryHeader req"
     "forwarded c = forwarded fx"
    using callSidecar_restores[of e req fx] cs by simp_all
  then show ?thesis
    by (auto simp add: consult_def cs split_beta Let_def split: sum.splits option.splits)
qed

lemma route_fields:
  "\<exists>tg r. forwarded (snd (snd (route e s code req fx))) = forwarded fx @ [(tg, r)]
        \<and> reqBody r = reqBody req \<and> xCanaryHeader r = xCanaryHeader req
        \<and> config (fst (route e s code req fx)) = config s
        \<and> (case canaryBucket s of
             None \<Rightarrow> canaryBucket (fst (route e s code req fx)) = None
           | Some b \<Rightarrow> (canaryBucket (fst (route e s code req fx)) = Some b \<and> tg \<noteq> ''canary'')
                     \<or> (0 < b \<and> canaryBucket (fst (route e s code req fx)) = Some (b - 1)
                         \<and> tg = ''canary''))"
  by (auto simp add: route_def split_beta TakeAvailable_def Let_def min_def
      split: if_splits option.splits)

section \<open>Results on the sequential handler\<close>

text \<open>
  C2. A request whose X-Canary header is exactly \<open>true\<close> is forwarded to canary, one
  whose header is exactly \<open>false\<close> to main; in both cases the reason names the header
  value, the sidecar is not called and the server, bucket included, is left as it was.
  Any other header (absent or any other text) is ignored: the request is handled by the
  handler function that applies without an override.
\<close>

theorem header_override:
  "(xCanaryHeader req = Some ''true'' \<longrightarrow>
      (\<exists>fx'. viaProxy e s req fx = (s, None, fx')
         \<and> forwarded fx' = forwarded fx
              @ [(''canary'', fst (setRoutingReason e (trimmed s req) (xCanaryReason ''true'') fx))]
         \<and> reasons fx' = reasons fx @ [''Routed via X-Canary header value: true'']
         \<and> sidecarCalls fx' = sidecarCalls fx))
   \<and> (xCanaryHeader req = Some ''false'' \<longrightarrow>
      (\<exists>fx'. viaProxy e s req fx = (s, None, fx')
         \<and> forwarded fx' = forwarded fx
              @ [(''main'', fst (setRoutingReason e (trimmed s req) (xCanaryReason ''false'') fx))]
         \<and> reasons fx' = reasons fx @ [''Routed via X-Canary header value: false'']
         \<and> sidecarCalls fx' = sidecarCalls fx))
   \<and> (xCanaryHeader req \<noteq> Some ''true'' \<and> xCanaryHeader req \<noteq> Some ''false'' \<longrightarrow>
        viaProxy e s req fx =
          (let (s', p, r, fx1) = handlerFunc e s (trimmed s req) fx in (s', recovered p r fx1)))"
proof (intro conjI impI)
  assume "xCanaryHeader req = Some ''true''"
  then have "Header_Get (xCanaryHeader (trimmed s req)) = ''true''"
    by (simp add: Header_Get_def)
  then show "\<exists>fx'. viaProxy e s req fx = (s, None, fx')
         \<and> forwarded fx' = forwarded fx
              @ [(''canary'', fst (setRoutingReason e (trimmed s req) (xCanaryReason ''true'') fx))]
         \<and> reasons fx' = reasons fx @ [''Routed via X-Canary header value: true'']
         \<and> sidecarCalls fx' = sidecarCalls fx"
    by (simp add: viaProxy_def pipeline_def Let_def convertToBool_def split_beta
          serveCanary_fx setRoutingReason_fx xCanaryReason_def)
next
  assume "xCanaryHeader req = Some ''false''"
  then have "Header_Get (xCanaryHeader (trimmed s req)) = ''false''"
    by (simp add: Header_Get_def)
  then show "\<exists>fx'. viaProxy e s req fx = (s, None, fx')
         \<and> forwarded fx' = forwarded fx
              @ [(''main'', fst (setRoutingReason e (trimmed s req) (xCanaryReason ''false'') fx))]
         \<and> reasons fx' = reasons fx @ [''Routed via X-Canary header value: false'']
         \<and> sidecarCalls fx' = sidecarCalls fx"
    by (simp add: viaProxy_def pipeline_def Let_def convertToBool_def split_beta
          serveMain_fx setRoutingReason_fx xCanaryReason_def)
next
  assume "xCanaryHeader req \<noteq> Some ''true'' \<and> xCanaryHeader req \<noteq> Some ''false''"
  then show "viaProxy e s req fx =
          (let (s', p, r, fx1) = handlerFunc e s (trimmed s req) fx in (s', recovered p r fx1))"
    by (simp add: no_override)
qed

theorem header_override_witness:
  "map fst (forwarded (snd (snd (viaProxy demoEnv spentServer (demoRequest ''/api/canary'' (Some ''true'')) noEffects))))
     = [''canary'']
   \<and> fst (viaProxy demoEnv spentServer (demoRequest ''/api/canary'' (Some ''true'')) noEffects) = spentServer
   \<and> map fst (forwarded (snd (snd (viaProxy demoEnv demoServer (demoRequest ''/api/canary'' (Some ''false'')) noEffects))))
     = [''main'']
   \<and> sidecarCalls (snd (snd (viaProxy demoEnv demoServer (demoRequest ''/api/canary'' (Some ''false'')) noEffects))) = []
   \<and> reasons (snd (snd (viaProxy demoEnv demoServer (demoRequest ''/api/canary'' (Some ''TRUE'')) noEffects)))
     = [''Sidecar returns status code 200'']
   \<and> reasons (snd (snd (viaProxy demoEnv demoServer (demoRequest ''/api/canary'' (Some ''1'')) noEffects)))
     = [''Sidecar returns status code 200'']
   \<and> reasons (snd (snd (viaProxy demoEnv demoServer (demoRequest ''/api/canary'' (Some [])) noEffects)))
     = reasons (snd (snd (viaProxy demoEnv demoServer (demoRequest ''/api/canary'' None) noEffects)))"
proof -
  have a: "xCanaryHeader (demoRequest ''/api/canary'' (Some ''true'')) = Some ''true''"
    and b: "xCanaryHeader (demoRequest ''/api/canary'' (Some ''false'')) = Some ''false''"
    and c: "xCanaryHeader (demoRequest ''/api/canary'' (Some ''TRUE'')) \<noteq> Some ''true''
            \<and> xCanaryHeader (demoRequest ''/api/canary'' (Some ''TRUE'')) \<noteq> Some ''false''"
    by (simp_all add: demoRequest_def)
  from header_override[of "demoRequest ''/api/canary'' (Some ''true'')" demoEnv spentServer noEffects] a
  have 1: "fst (viaProxy demoEnv spentServer (demoRequest ''/api/canary'' (Some ''true'')) noEffects) = spentServer"
    by auto
  from header_override[of "demoRequest ''/api/canary'' (Some ''false'')" demoEnv demoServer noEffects] b
  have 2: "sidecarCalls (snd (snd (viaProxy demoEnv demoServer (demoRequest ''/api/canary'' (Some ''false'')) noEffects))) = []"
    by (auto simp add: noEffects_def)
  from header_override[of "demoRequest ''/api/canary'' (Some ''TRUE'')" demoEnv demoServer noEffects] c
  have 3: "viaProxy demoEnv demoServer (demoRequest ''/api/canary'' (Some ''TRUE'')) noEffects =
      (let (s', p, r, fx1) = handlerFunc demoEnv demoServer (trimmed demoServer (demoRequest ''/api/canary'' (Some ''TRUE''))) noEffects
       in (s', recovered p r fx1))"
    by blast
  show ?thesis
    using 1 2 3 by (simp add: eval_defs)
qed

text \<open>
  C9. Without a sidecar URL every request that carries no valid override is forwarded
  to main (with its path trimmed), the sidecar is not called and the server is left as
  it was.
\<close>

theorem no_sidecar_routes_main:
  assumes "SidecarURL (config s) = []"
    and "xCanaryHeader req \<noteq> Some ''true''" and "xCanaryHeader req \<noteq> Some ''false''"
  shows "\<exists>fx'. viaProxy e s req fx = (s, None, fx')
           \<and> forwarded fx' = forwarded fx @ [(''main'', trimmed s req)]
           \<and> sidecarCalls fx' = sidecarCalls fx"
  using assms(1)
  by (simp add: no_override[OF assms(2,3)] handlerFunc_def isSidecarProvided_def split_beta serveMain_fx)

theorem no_sidecar_routes_main_witness:
  "SidecarURL (config plainServer) = []
   \<and> xCanaryHeader (demoRequest ''/api/canary'' (Some ''yes'')) \<noteq> Some ''true''
   \<and> xCanaryHeader (demoRequest ''/api/canary'' (Some ''yes'')) \<noteq> Some ''false''
   \<and> viaProxy demoEnv plainServer (demoRequest ''/api/canary'' (Some ''yes'')) noEffects
      = (plainServer, None,
         \<lparr>resp = \<lparr>headOnly = False, header = Some (200, None), written = ''from main''\<rparr>,
          forwarded = [(''main'', demoRequest ''/canary'' (Some ''yes''))],
          reasons = [], sidecarCalls = [], metrics = [(''main'', ''v1'')],
          logs = [LogRouted ''main'' (demoRequest ''/canary'' (Some ''yes''))]\<rparr>)"
proof -
  have h: "SidecarURL (config plainServer) = []"
    "xCanaryHeader (demoRequest ''/api/canary'' (Some ''yes'')) \<noteq> Some ''true''"
    "xCanaryHeader (demoRequest ''/api/canary'' (Some ''yes'')) \<noteq> Some ''false''"
    by (simp_all add: plainServer_def demoRequest_def)
  from no_sidecar_routes_main[OF h, of demoEnv noEffects]
  have "fst (viaProxy demoEnv plainServer (demoRequest ''/api/canary'' (Some ''yes'')) noEffects) = plainServer"
    by auto
  then show ?thesis using h by (simp add: eval_defs)
qed

text \<open>
  C4. When the sidecar call yields the status StatusSidecarError, whether the sidecar
  answered with it or the proxy's error handler wrote it after a transport failure,
  the request is forwarded to main, the reason is the captured body text, and what the
  client receives is what the main backend wrote.
\<close>

theorem sidecar_error_routes_main:
  assumes "SidecarURL (config s) \<noteq> []"
    and "\<forall>b. canaryBucket s = Some b \<longrightarrow> 0 < b"
    and "xCanaryHeader req \<noteq> Some ''true''" and "xCanaryHeader req \<noteq> Some ''false''"
    and "failure (reqBody req) = None"
    and "sidecarRoundTrip e (replayed (trimmed s req)) = Responded StatusSidecarError msg
         \<or> sidecarRoundTrip e (replayed (trimmed s req)) = TransportFailure msg"
  shows "\<exists>fx' r. viaProxy e s req fx = (s, None, fx')
           \<and> forwarded fx' = forwarded fx @ [(''main'', r)]
           \<and> reasons fx' = reasons fx @ [msg]
           \<and> sidecarCalls fx' = sidecarCalls fx @ [replayed (trimmed s req)]
           \<and> (fst (mainProxy e r (resp fx)) = None \<longrightarrow> resp fx' = snd (mainProxy e r (resp fx)))"
proof -
  have rd: "failure (reqBody (trimmed s req)) = None"
    using assms(5) by simp
  have cs: "callSidecar e (trimmed s req) fx =
     (Inr (StatusSidecarError, Some msg), replayed (trimmed s req),
      fx\<lparr>sidecarCalls := sidecarCalls fx @ [replayed (trimmed s req)]\<rparr>)"
    using assms(6) by (auto simp add: callSidecar_ok[OF rd])
  show ?thesis
    using assms(1)
    by (simp add: no_override[OF assms(3,4)] handlerFunc_def isSidecarProvided_def
        viaProxyWithSidecar_def precheck_pass[OF assms(2)] consult_def cs split_beta
        serveMain_fx serveMain_panic setRoutingReason_fx recovered_def split: option.splits)
qed

theorem sidecar_error_routes_main_witness:
  "SidecarURL (config demoServer) \<noteq> [] \<and> canaryBucket demoServer = Some 1
   \<and> failure (reqBody (demoRequest ''/api/busy'' None)) = None
   \<and> sidecarRoundTrip demoEnv (replayed (trimmed demoServer (demoRequest ''/api/busy'' None)))
       = Responded StatusSidecarError ''timeout''
   \<and> sidecarRoundTrip demoEnv (replayed (trimmed demoServer (demoRequest ''/api/down'' None)))
       = TransportFailure ''connection refused''
   \<and> map fst (forwarded (snd (snd (viaProxy demoEnv demoServer (demoRequest ''/api/busy'' None) noEffects))))
       = [''main'']
   \<and> reasons (snd (snd (viaProxy demoEnv demoServer (demoRequest ''/api/busy'' None) noEffects))) = [''timeout'']
   \<and> resp (snd (snd (viaProxy demoEnv demoServer (demoRequest ''/api/busy'' None) noEffects)))
       = \<lparr>headOnly = False, header = Some (200, None), written = ''from main''\<rparr>
   \<and> map fst (forwarded (snd (snd (viaProxy demoEnv demoServer (demoRequest ''/api/down'' None) noEffects))))
       = [''main'']
   \<and> reasons (snd (snd (viaProxy demoEnv demoServer (demoRequest ''/api/down'' None) noEffects)))
       = [''connection refused'']"
proof -
  have h: "SidecarURL (config demoServer) \<noteq> []" "\<forall>b. canaryBucket demoServer = Some b \<longrightarrow> 0 < b"
    by (simp_all add: demoServer_def demoConfig_def)
  have busy: "xCanaryHeader (demoRequest ''/api/busy'' None) \<noteq> Some ''true''"
    "xCanaryHeader (demoRequest ''/api/busy'' None) \<noteq> Some ''false''"
    "failure (reqBody (demoRequest ''/api/busy'' None)) = None"
    "sidecarRoundTrip demoEnv (replayed (trimmed demoServer (demoRequest ''/api/busy'' None)))
       = Responded StatusSidecarError ''timeout''
     \<or> sidecarRoundTrip demoEnv (replayed (trimmed demoServer (demoRequest ''/api/busy'' None)))
       = TransportFailure ''timeout''"
    by (simp_all add: eval_defs)
  have down: "xCanaryHeader (demoRequest ''/api/down'' None) \<noteq> Some ''true''"
    "xCanaryHeader (demoRequest ''/api/down'' None) \<noteq> Some ''false''"
    "failure (reqBody (demoRequest ''/api/down'' None)) = None"
    "sidecarRoundTrip demoEnv (replayed (trimmed demoServer (demoRequest ''/api/down'' None)))
       = Responded StatusSidecarError ''connection refused''
     \<or> sidecarRoundTrip demoEnv (replayed (trimmed demoServer (demoRequest ''/api/down'' None)))
       = TransportFailure ''connection refused''"
    by (simp_all add: eval_defs)
  from sidecar_error_routes_main[OF h busy, of noEffects]
  have 1: "reasons (snd (snd (viaProxy demoEnv demoServer (demoRequest ''/api/busy'' None) noEffects))) = [''timeout'']"
    by (auto simp add: noEffects_def)
  from sidecar_error_routes_main[OF h down, of noEffects]
  have 2: "reasons (snd (snd (viaProxy demoEnv demoServer (demoRequest ''/api/down'' None) noEffects)))
       = [''connection refused'']"
    by (auto simp add: noEffects_def)
  show ?thesis using 1 2 by (simp add: eval_defs)
qed

text \<open>
  C8. A status code equal to StatusCodeMain sends the request to main with the code in
  the reason; a code that is neither StatusCodeMain nor StatusCodeCanary nor
  StatusSidecarError sends it to main with a reason that calls the code non standard.
\<close>

theorem status_code_mapping:
  assumes "SidecarURL (config s) \<noteq> []"
    and "\<forall>b. canaryBucket s = Some b \<longrightarrow> 0 < b"
    and "xCanaryHeader req \<noteq> Some ''true''" and "xCanaryHeader req \<noteq> Some ''false''"
    and "failure (reqBody req) = None"
    and "sidecarRoundTrip e (replayed (trimmed s req)) = Responded code msg"
    and "code \<noteq> StatusSidecarError"
  shows "(code = StatusCodeMain e \<longrightarrow>
           (\<exists>fx' r. viaProxy e s req fx = (s, None, fx')
              \<and> forwarded fx' = forwarded fx @ [(''main'', r)]
              \<and> reasons fx' = reasons fx @ [''Sidecar returns status code '' @ fmt_d code]))
       \<and> (code \<noteq> StatusCodeMain e \<and> code \<noteq> StatusCodeCanary e \<longrightarrow>
           (\<exists>fx' r. viaProxy e s req fx = (s, None, fx')
              \<and> forwarded fx' = forwarded fx @ [(''main'', r)]
              \<and> reasons fx' = reasons fx
                   @ [''Sidecar returns non standard status code '' @ fmt_d code]))"
proof -
  have rd: "failure (reqBody (trimmed s req)) = None"
    using assms(5) by simp
  have cs: "callSidecar e (trimmed s req) fx =
     (Inr (code, None), replayed (trimmed s req),
      fx\<lparr>sidecarCalls := sidecarCalls fx @ [replayed (trimmed s req)]\<rparr>)"
    using assms(6,7) by (simp add: callSidecar_ok[OF rd])
  show ?thesis
    using assms(1)
    by (simp add: no_override[OF assms(3,4)] handlerFunc_def isSidecarProvided_def
        viaProxyWithSidecar_def precheck_pass[OF assms(2)] consult_def cs split_beta route_def
        serveMain_fx setRoutingReason_fx)
qed

theorem status_code_mapping_witness:
  "SidecarURL (config demoServer) \<noteq> [] \<and> canaryBucket demoServer = Some 1
   \<and> sidecarRoundTrip demoEnv (replayed (trimmed demoServer (demoRequest ''/api/main'' None)))
       = Responded (StatusCodeMain demoEnv) []
   \<and> sidecarRoundTrip demoEnv (replayed (trimmed demoServer (demoRequest ''/api/teapot'' None)))
       = Responded 418 ''short and stout''
   \<and> StatusCodeMain demoEnv \<noteq> StatusSidecarError
   \<and> 418 \<noteq> StatusSidecarError \<and> 418 \<noteq> StatusCodeMain demoEnv \<and> 418 \<noteq> StatusCodeCanary demoEnv
   \<and> map fst (forwarded (snd (snd (viaProxy demoEnv demoServer (demoRequest ''/api/main'' None) noEffects))))
       = [''main'']
   \<and> reasons (snd (snd (viaProxy demoEnv demoServer (demoRequest ''/api/main'' None) noEffects)))
       = [''Sidecar returns status code 204'']
   \<and> map fst (forwarded (snd (snd (viaProxy demoEnv demoServer (demoRequest ''/api/teapot'' None) noEffects))))
       = [''main'']
   \<and> reasons (snd (snd (viaProxy demoEnv demoServer (demoRequest ''/api/teapot'' None) noEffects)))
       = [''Sidecar returns non standard status code 418'']"
proof -
  have h: "SidecarURL (config demoServer) \<noteq> []" "\<forall>b. canaryBucket demoServer = Some b \<longrightarrow> 0 < b"
    by (simp_all add: demoServer_def demoConfig_def)
  have m: "xCanaryHeader (demoRequest ''/api/main'' None) \<noteq> Some ''true''"
    "xCanaryHeader (demoRequest ''/api/main'' None) \<noteq> Some ''false''"
    "failure (reqBody (demoRequest ''/api/main'' None)) = None"
    "sidecarRoundTrip demoEnv (replayed (trimmed demoServer (demoRequest ''/api/main'' None)))
       = Responded (StatusCodeMain demoEnv) []"
    "StatusCodeMain demoEnv \<noteq> StatusSidecarError"
    by (simp_all add: eval_defs)
  have t: "xCanaryHeader (demoRequest ''/api/teapot'' None) \<noteq> Some ''true''"
    "xCanaryHeader (demoRequest ''/api/teapot'' None) \<noteq> Some ''false''"
    "failure (reqBody (demoRequest ''/api/teapot'' None)) = None"
    "sidecarRoundTrip demoEnv (replayed (trimmed demoServer (demoRequest ''/api/teapot'' None)))
       = Responded 418 ''short and stout''"
    "418 \<noteq> StatusSidecarError"
    by (simp_all add: eval_defs)
  from status_code_mapping[OF h m, of noEffects]
  have 1: "reasons (snd (snd (viaProxy demoEnv demoServer (demoRequest ''/api/main'' None) noEffects)))
       = [''Sidecar returns status code '' @ fmt_d (StatusCodeMain demoEnv)]"
    by (auto simp add: noEffects_def)
  have "418 \<noteq> StatusCodeMain demoEnv \<and> 418 \<noteq> StatusCodeCanary demoEnv"
    by (simp add: demoEnv_def)
  with status_code_mapping[OF h t, of noEffects]
  have 2: "reasons (snd (snd (viaProxy demoEnv demoServer (demoRequest ''/api/teapot'' None) noEffects)))
       = [''Sidecar returns non standard status code '' @ fmt_d 418]"
    by (auto simp add: noEffects_def)
  show ?thesis using 1 2 by (simp add: eval_defs)
qed

section \<open>Results on the admission step and the guard\<close>

text \<open>
  C3. A task that holds the status StatusCodeCanary from the sidecar takes its step at
  the switch: without a bucket it is forwarded to canary; with a bucket that has a
  token it takes one and is forwarded to canary; with a bucket that has none left
  (TakeAvailable returns 0) it is forwarded to main with the reason
  \<open>Sidecar returns status code <code>, but canary limit reached\<close>.
\<close>

theorem admission_after_decision:
  assumes "phase t = AtSwitch (StatusCodeCanary e)" and "StatusCodeCanary e \<noteq> StatusCodeMain e"
  shows "(canaryBucket s = None \<longrightarrow>
           (\<exists>t' r. advance e s t = (s, t') \<and> phase t' = Finished
              \<and> forwarded (tfx t') = forwarded (tfx t) @ [(''canary'', r)]
              \<and> reasons (tfx t') = reasons (tfx t)
                   @ [''Sidecar returns status code '' @ fmt_d (StatusCodeCanary e)]))
       \<and> (\<forall>b. canaryBucket s = Some b \<and> 0 < b \<longrightarrow>
           (\<exists>t' r. advance e s t = (s\<lparr>canaryBucket := Some (b - 1)\<rparr>, t') \<and> phase t' = Finished
              \<and> fst (TakeAvailable b 1) = 1
              \<and> forwarded (tfx t') = forwarded (tfx t) @ [(''canary'', r)]
              \<and> reasons (tfx t') = reasons (tfx t)
                   @ [''Sidecar returns status code '' @ fmt_d (StatusCodeCanary e)]))
       \<and> (\<forall>b. canaryBucket s = Some b \<and> b \<le> 0 \<longrightarrow>
           (\<exists>t' r. advance e s t = (s, t') \<and> phase t' = Finished
              \<and> fst (TakeAvailable b 1) = 0
              \<and> forwarded (tfx t') = forwarded (tfx t) @ [(''main'', r)]
              \<and> reasons (tfx t') = reasons (tfx t)
                   @ [''Sidecar returns status code '' @ fmt_d (StatusCodeCanary e)
                        @ '', but canary limit reached'']))"
proof (intro conjI allI impI)
  assume "canaryBucket s = None"
  then show "\<exists>t' r. advance e s t = (s, t') \<and> phase t' = Finished
              \<and> forwarded (tfx t') = forwarded (tfx t) @ [(''canary'', r)]
              \<and> reasons (tfx t') = reasons (tfx t)
                   @ [''Sidecar returns status code '' @ fmt_d (StatusCodeCanary e)]"
    using assms
    by (simp add: advance_def route_def split_beta serveCanary_fx setRoutingReason_fx)
next
  fix b assume "canaryBucket s = Some b \<and> 0 < b"
  then show "\<exists>t' r. advance e s t = (s\<lparr>canaryBucket := Some (b - 1)\<rparr>, t') \<and> phase t' = Finished
              \<and> fst (TakeAvailable b 1) = 1
              \<and> forwarded (tfx t') = forwarded (tfx t) @ [(''canary'', r)]
              \<and> reasons (tfx t') = reasons (tfx t)
                   @ [''Sidecar returns status code '' @ fmt_d (StatusCodeCanary e)]"
    using assms
    by (simp add: advance_def route_def split_beta serveCanary_fx setRoutingReason_fx
        TakeAvailable_def Let_def min_def)
next
  fix b assume h: "canaryBucket s = Some b \<and> b \<le> 0"
  then have same: "s\<lparr>canaryBucket := Some b\<rparr> = s" by simp
  show "\<exists>t' r. advance e s t = (s, t') \<and> phase t' = Finished
              \<and> fst (TakeAvailable b 1) = 0
              \<and> forwarded (tfx t') = forwarded (tfx t) @ [(''main'', r)]
              \<and> reasons (tfx t') = reasons (tfx t)
                   @ [''Sidecar returns status code '' @ fmt_d (StatusCodeCanary e)
                        @ '', but canary limit reached'']"
    using assms h
    by (simp add: advance_def route_def split_beta serveMain_fx setRoutingReason_fx
        TakeAvailable_def Let_def same)
qed

text \<open>
  The witness runs the three cases, and the interleaving of two requests against a
  bucket of one token in which both pass the pre-check before either reaches the switch.
\<close>

theorem admission_after_decision_witness:
  "phase switchTask = AtSwitch (StatusCodeCanary demoEnv)
   \<and> StatusCodeCanary demoEnv \<noteq> StatusCodeMain demoEnv
   \<and> map fst (forwarded (tfx (snd (advance demoEnv (demoServer\<lparr>canaryBucket := None\<rparr>) switchTask))))
       = [''canary'']
   \<and> canaryBucket (fst (advance demoEnv demoServer switchTask)) = Some 0
   \<and> map fst (forwarded (tfx (snd (advance demoEnv demoServer switchTask)))) = [''canary'']
   \<and> canaryBucket (fst (advance demoEnv spentServer switchTask)) = Some 0
   \<and> map fst (forwarded (tfx (snd (advance demoEnv spentServer switchTask)))) = [''main'']
   \<and> reasons (tfx (snd (advance demoEnv spentServer switchTask)))
       = [''Sidecar returns status code 200, but canary limit reached'']
   \<and> map (\<lambda>t. (phase t, map fst (forwarded (tfx t)), reasons (tfx t)))
        (snd (run demoEnv [0, 1, 0, 1, 0, 1]
           (demoServer, map newTask [demoRequest ''/api/canary'' None, demoRequest ''/api/canary'' None])))
       = [(Finished, [''canary''], [''Sidecar returns status code 200'']),
          (Finished, [''main''], [''Sidecar returns status code 200, but canary limit reached''])]"
proof -
  have h: "phase switchTask = AtSwitch (StatusCodeCanary demoEnv)"
    "StatusCodeCanary demoEnv \<noteq> StatusCodeMain demoEnv"
    by (simp_all add: switchTask_def demoEnv_def)
  have "canaryBucket spentServer = Some 0 \<and> (0::int) \<le> 0"
    by (simp add: spentServer_def)
  with admission_after_decision[OF h, of spentServer]
  have "fst (advance demoEnv spentServer switchTask) = spentServer"
    by auto
  then have 1: "canaryBucket (fst (advance demoEnv spentServer switchTask)) = Some 0"
    by (simp add: spentServer_def)
  show ?thesis using h 1 by (simp add: eval_defs)
qed




lemma override_true:
  assumes "xCanaryHeader req = Some ''true''"
  shows "fst (ServeHTTP e s req) = s \<and> canaryCount (snd (snd (ServeHTTP e s req))) = 1"
proof -
  have "Header_Get (xCanaryHeader (trimmed s req)) = ''true''"
    using assms by (simp add: Header_Get_def)
  then show ?thesis
    by (simp add: ServeHTTP_def viaProxy_def pipeline_def Let_def convertToBool_def split_beta
        canaryCount_def startEffects_def noEffects_def)
qed

text \<open>
  C10. Requests whose X-Canary header is exactly \<open>true\<close>, served one after the other,
  are all forwarded to canary and leave the server, and with it the bucket, exactly as
  it was: the number of requests sent to canary is the number of such requests,
  whatever the capacity.
\<close>

theorem override_bypasses_quota:
  assumes "\<forall>req\<in>set reqs. xCanaryHeader req = Some ''true''"
  shows "fst (serveAll e s reqs) = s
       \<and> canaryBucket (fst (serveAll e s reqs)) = canaryBucket s
       \<and> canaryTotal (snd (serveAll e s reqs)) = length reqs"
  using assms
proof (induction reqs)
  case Nil
  then show ?case by (simp add: canaryTotal_def)
next
  case (Cons req reqs)
  then have ih: "fst (serveAll e s reqs) = s" "canaryTotal (snd (serveAll e s reqs)) = length reqs"
    by simp_all
  have one: "fst (ServeHTTP e s req) = s" "canaryCount (snd (snd (ServeHTTP e s req))) = 1"
    using override_true[of req e s] Cons.prems by simp_all
  show ?case using ih one
    by (simp add: split_beta Let_def canaryTotal_def)
qed

theorem override_bypasses_quota_witness:
  "NewServer demoEnv demoConfig ''v1'' = Inr demoServer
   \<and> RequestLimitCanary demoConfig = 1
   \<and> canaryBucket (fst (serveAll demoEnv demoServer
        [demoRequest ''/api/a'' (Some ''true''), demoRequest ''/api/b'' (Some ''true'')])) = Some 1
   \<and> canaryTotal (snd (serveAll demoEnv demoServer
        [demoRequest ''/api/a'' (Some ''true''), demoRequest ''/api/b'' (Some ''true'')])) = 2"
proof -
  have h: "\<forall>req\<in>set [demoRequest ''/api/a'' (Some ''true''), demoRequest ''/api/b'' (Some ''true'')].
             xCanaryHeader req = Some ''true''"
    by (simp add: demoRequest_def)
  from override_bypasses_quota[OF h, of demoEnv demoServer]
  have "canaryBucket (fst (serveAll demoEnv demoServer
          [demoRequest ''/api/a'' (Some ''true''), demoRequest ''/api/b'' (Some ''true'')])) = Some 1"
    "canaryTotal (snd (serveAll demoEnv demoServer
          [demoRequest ''/api/a'' (Some ''true''), demoRequest ''/api/b'' (Some ''true'')])) = 2"
    by (simp_all add: demoServer_def)
  then show ?thesis by (simp add: NewServer_def NewBucket_def demoEnv_def demoConfig_def demoServer_def)
qed

section \<open>Results on interleaved requests\<close>

lemma advance_entry:
  assumes "phase t = AtEntry"
  shows "fst (advance e s t) = s \<and> canaryDecided (snd (advance e s t)) = canaryDecided t
         \<and> noOverride (snd (advance e s t))"
proof (cases "convertToBool (Header_Get (xCanaryHeader (trimmed s (treq t))))")
  case (Inr xc)
  then have "xc \<longrightarrow> Header_Get (xCanaryHeader (trimmed s (treq t))) = ''true''"
    by (auto simp add: convertToBool_def split: if_splits)
  then show ?thesis using assms Inr
    by (auto simp add: advance_def Let_def split_beta canaryDecided_def noOverride_def viaDecision_def)
next
  case (Inl err)
  then have ne: "Header_Get (xCanaryHeader (trimmed s (treq t))) \<noteq> ''true''"
    by (auto simp add: convertToBool_def split: if_splits)
  show ?thesis
  proof (cases "precheck e s (trimmed s (treq t)) (tfx t)")
    case None
    then show ?thesis using assms Inl ne
      by (auto simp add: advance_def Let_def split_beta canaryDecided_def noOverride_def viaDecision_def)
  next
    case (Some out)
    from precheck_stops[OF Some] show ?thesis using assms Inl ne Some
      by (auto simp add: advance_def Let_def split_beta canaryDecided_def noOverride_def viaDecision_def)
  qed
qed

lemma advance_sidecar:
  assumes "phase t = AtSidecar" and "noOverride t"
  shows "fst (advance e s t) = s \<and> canaryDecided (snd (advance e s t)) = canaryDecided t
         \<and> noOverride (snd (advance e s t))"
  using assms consult_fields[of e s "treq t" "tfx t"]
  by (cases "consult e s (treq t) (tfx t)")
     (auto simp add: advance_def Let_def split_beta canaryDecided_def noOverride_def viaDecision_def
        split: sum.splits)

lemma advance_switch:
  assumes "phase t = AtSwitch code" and "noOverride t"
  shows "config (fst (advance e s t)) = config s \<and> noOverride (snd (advance e s t))
     \<and> (case canaryBucket s of
          None \<Rightarrow> canaryBucket (fst (advance e s t)) = None
        | Some b \<Rightarrow> (canaryBucket (fst (advance e s t)) = Some b
                      \<and> canaryDecided (snd (advance e s t)) = canaryDecided t)
                  \<or> (0 < b \<and> canaryBucket (fst (advance e s t)) = Some (b - 1)
                      \<and> canaryDecided (snd (advance e s t)) = canaryDecided t + 1))"
  using assms route_fields[of e s code "treq t" "tfx t"]
  by (auto simp add: advance_def Let_def split_beta canaryDecided_def noOverride_def viaDecision_def
      split: option.splits)

text \<open>One step of one task: the token count stays, or it was positive and drops by one with one more request sent to canary by decision.\<close>

lemma advance_step:
  assumes "noOverride t"
  shows "config (fst (advance e s t)) = config s \<and> noOverride (snd (advance e s t))
     \<and> (case canaryBucket s of
          None \<Rightarrow> canaryBucket (fst (advance e s t)) = None
        | Some b \<Rightarrow> (canaryBucket (fst (advance e s t)) = Some b
                      \<and> canaryDecided (snd (advance e s t)) = canaryDecided t)
                  \<or> (0 < b \<and> canaryBucket (fst (advance e s t)) = Some (b - 1)
                      \<and> canaryDecided (snd (advance e s t)) = canaryDecided t + 1))"
proof (cases "phase t")
  case AtEntry
  from advance_entry[OF this, of e s] show ?thesis by (auto split: option.splits)
next
  case AtSidecar
  from advance_sidecar[OF this assms, of e s] show ?thesis by (auto split: option.splits)
next
  case (AtSwitch code)
  from advance_switch[OF this assms, of e s] show ?thesis .
next
  case Finished
  then have "advance e s t = (s, t)" by (simp add: advance_def)
  then show ?thesis using assms by (auto split: option.splits)
next
  case (Unwound v)
  then have "advance e s t = (s, t)" by (simp add: advance_def)
  then show ?thesis using assms by (auto split: option.splits)
qed

lemma canaryDecided_update:
  assumes "i < length ts"
  shows "sum_list (map canaryDecided (ts[i := t'])) + canaryDecided (ts ! i)
           = sum_list (map canaryDecided ts) + canaryDecided t'"
proof -
  have "sum_list ((map canaryDecided ts)[i := canaryDecided t'])
          = sum_list (map canaryDecided ts) + canaryDecided t' - (map canaryDecided ts) ! i"
    using assms by (simp add: sum_list_update)
  moreover have "(map canaryDecided ts) ! i \<le> sum_list (map canaryDecided ts)"
    using assms by (simp add: member_le_sum_list)
  ultimately show ?thesis using assms by (simp add: map_update)
qed

lemma run_step:
  assumes "\<forall>t\<in>set ts. noOverride t" and "canaryBucket s = Some b"
  shows "\<exists>b'. canaryBucket (fst (run e [i] (s, ts))) = Some b'
           \<and> (b' = b \<and> canaryByDecision (snd (run e [i] (s, ts))) = canaryByDecision ts
              \<or> 0 < b \<and> b' = b - 1
                \<and> canaryByDecision (snd (run e [i] (s, ts))) = canaryByDecision ts + 1)
           \<and> (\<forall>t\<in>set (snd (run e [i] (s, ts))). noOverride t)
           \<and> config (fst (run e [i] (s, ts))) = config s"
proof (cases "i < length ts")
  case False
  then show ?thesis using assms by simp
next
  case True
  obtain s' t' where adv: "advance e s (ts ! i) = (s', t')"
    by (cases "advance e s (ts ! i)") auto
  have "noOverride (ts ! i)" using assms(1) True by simp
  from advance_step[OF this, of e s] adv assms(2)
  have st: "config s' = config s" "noOverride t'"
     "(canaryBucket s' = Some b \<and> canaryDecided t' = canaryDecided (ts ! i))
        \<or> (0 < b \<and> canaryBucket s' = Some (b - 1) \<and> canaryDecided t' = canaryDecided (ts ! i) + 1)"
    by simp_all
  have wf: "\<forall>t\<in>set (ts[i := t']). noOverride t"
    using assms(1) st(2) by (auto dest!: set_update_subset_insert[THEN subsetD])
  have upd: "sum_list (map canaryDecided (ts[i := t'])) + canaryDecided (ts ! i)
               = sum_list (map canaryDecided ts) + canaryDecided t'"
    by (rule canaryDecided_update[OF True])
  have "\<exists>b'. canaryBucket s' = Some b'
          \<and> (b' = b \<and> canaryByDecision (ts[i := t']) = canaryByDecision ts
             \<or> 0 < b \<and> b' = b - 1 \<and> canaryByDecision (ts[i := t']) = canaryByDecision ts + 1)"
    using st(3)
  proof
    assume "canaryBucket s' = Some b \<and> canaryDecided t' = canaryDecided (ts ! i)"
    then show ?thesis using upd by (simp add: canaryByDecision_def)
  next
    assume "0 < b \<and> canaryBucket s' = Some (b - 1) \<and> canaryDecided t' = canaryDecided (ts ! i) + 1"
    then show ?thesis using upd by (simp add: canaryByDecision_def)
  qed
  then show ?thesis using True adv wf st(1) by simp
qed

lemma run_append: "run e (xs @ ys) g = run e ys (run e xs g)"
proof (induction xs arbitrary: g)
  case Nil
  then show ?case by simp
next
  case (Cons i xs)
  then show ?case by (cases g) (simp add: split_beta Let_def)
qed

lemma run_Cons: "run e (i # sched) g = run e sched (run e [i] g)"
  using run_append[of e "[i]" sched g] by simp

text \<open>Along a run the tokens left and the requests sent to canary by decision add up to what they were.\<close>

lemma run_invariant:
  assumes "\<forall>t\<in>set ts. noOverride t" and "canaryBucket s = Some b" and "0 \<le> b"
  shows "\<exists>b'. canaryBucket (fst (run e sched (s, ts))) = Some b' \<and> 0 \<le> b'
           \<and> int (canaryByDecision (snd (run e sched (s, ts)))) + b' = int (canaryByDecision ts) + b
           \<and> (\<forall>t\<in>set (snd (run e sched (s, ts))). noOverride t)
           \<and> config (fst (run e sched (s, ts))) = config s"
  using assms
proof (induction sched arbitrary: s ts b)
  case Nil
  then show ?case by simp
next
  case (Cons i sched)
  obtain s1 ts1 where r1: "run e [i] (s, ts) = (s1, ts1)"
    by (cases "run e [i] (s, ts)") auto
  from run_step[OF Cons.prems(1,2), of e i] r1 obtain b1 where
    b1: "canaryBucket s1 = Some b1"
      "b1 = b \<and> canaryByDecision ts1 = canaryByDecision ts
       \<or> 0 < b \<and> b1 = b - 1 \<and> canaryByDecision ts1 = canaryByDecision ts + 1"
      "\<forall>t\<in>set ts1. noOverride t" "config s1 = config s"
    by auto
  have nn: "0 \<le> b1" and sum: "int (canaryByDecision ts1) + b1 = int (canaryByDecision ts) + b"
    using b1(2) Cons.prems(3) by auto
  from Cons.IH[OF b1(3) b1(1) nn] obtain b' where
    ih: "canaryBucket (fst (run e sched (s1, ts1))) = Some b'" "0 \<le> b'"
    "int (canaryByDecision (snd (run e sched (s1, ts1)))) + b' = int (canaryByDecision ts1) + b1"
    "\<forall>t\<in>set (snd (run e sched (s1, ts1))). noOverride t"
    "config (fst (run e sched (s1, ts1))) = config s1"
    by blast
  note ih
  moreover have "run e (i # sched) (s, ts) = run e sched (s1, ts1)"
    by (subst run_Cons) (simp only: r1)
  ultimately show ?case using sum b1(4) by (simp del: run.simps)
qed

lemma newTask_start:
  "(\<forall>t\<in>set (map newTask reqs). noOverride t) \<and> canaryByDecision (map newTask reqs) = 0"
  by (induction reqs)
     (simp_all add: newTask_def noOverride_def canaryByDecision_def canaryDecided_def
        startEffects_def noEffects_def)

text \<open>
  C1. Let the server be built with a canary limit N > 0 and let any number of requests
  be handled in any interleaving of their steps. At every point of the run the bucket
  holds b tokens with 0 \<le> b, and b plus the number of requests sent to canary on the
  sidecar's decision is N, so at most N such requests are ever sent. Any further step
  either leaves the count as it is, or finds it positive, lowers it by exactly one and
  sends exactly one more request to canary; it never raises it.
\<close>

theorem canary_quota_bound:
  assumes "0 < RequestLimitCanary cfg" and "NewServer e cfg ver = Inr s0"
    and "run e sched (s0, map newTask reqs) = (s, ts)"
  shows "\<exists>b. canaryBucket s = Some b \<and> 0 \<le> b
           \<and> int (canaryByDecision ts) + b = RequestLimitCanary cfg
           \<and> int (canaryByDecision ts) \<le> RequestLimitCanary cfg
           \<and> (\<forall>i. \<exists>b'. canaryBucket (fst (run e (sched @ [i]) (s0, map newTask reqs))) = Some b'
                 \<and> (b' = b \<and> canaryByDecision (snd (run e (sched @ [i]) (s0, map newTask reqs)))
                               = canaryByDecision ts
                    \<or> 0 < b \<and> b' = b - 1
                      \<and> canaryByDecision (snd (run e (sched @ [i]) (s0, map newTask reqs)))
                          = canaryByDecision ts + 1))"
proof -
  have s0: "canaryBucket s0 = Some (RequestLimitCanary cfg)"
    using assms(1,2) by (auto simp add: NewServer_def NewBucket_def split: if_splits)
  have start: "\<forall>t\<in>set (map newTask reqs). noOverride t" "canaryByDecision (map newTask reqs) = 0"
    using newTask_start[of reqs] by simp_all
  have nn: "0 \<le> RequestLimitCanary cfg" using assms(1) by simp
  from run_invariant[OF start(1) s0 nn, of e sched] assms(3) start(2)
  obtain b where b: "canaryBucket s = Some b" "0 \<le> b"
      "int (canaryByDecision ts) + b = RequestLimitCanary cfg" "\<forall>t\<in>set ts. noOverride t"
    by auto
  have next_step: "\<exists>b'. canaryBucket (fst (run e (sched @ [i]) (s0, map newTask reqs))) = Some b'
                 \<and> (b' = b \<and> canaryByDecision (snd (run e (sched @ [i]) (s0, map newTask reqs)))
                               = canaryByDecision ts
                    \<or> 0 < b \<and> b' = b - 1
                      \<and> canaryByDecision (snd (run e (sched @ [i]) (s0, map newTask reqs)))
                          = canaryByDecision ts + 1)" for i
    using run_step[OF b(4) b(1), of e i] assms(3) by (auto simp add: run_append)
  show ?thesis using b next_step by auto
qed

theorem canary_quota_bound_witness:
  "0 < RequestLimitCanary demoConfig
   \<and> NewServer demoEnv demoConfig ''v1'' = Inr demoServer
   \<and> canaryBucket (fst (run demoEnv [0, 1, 0, 1, 0, 1]
        (demoServer, map newTask [demoRequest ''/api/canary'' None, demoRequest ''/api/canary'' None])))
       = Some 0
   \<and> canaryByDecision (snd (run demoEnv [0, 1, 0, 1, 0, 1]
        (demoServer, map newTask [demoRequest ''/api/canary'' None, demoRequest ''/api/canary'' None])))
       = 1
   \<and> canaryBucket (fst (run demoEnv [0, 1, 0, 1, 0]
        (demoServer, map newTask [demoRequest ''/api/canary'' None, demoRequest ''/api/canary'' None])))
       = Some 0"
proof -
  have h: "0 < RequestLimitCanary demoConfig" "NewServer demoEnv demoConfig ''v1'' = Inr demoServer"
    by (simp_all add: NewServer_def NewBucket_def demoEnv_def demoConfig_def demoServer_def)
  have r: "run demoEnv [0, 1, 0, 1, 0, 1]
        (demoServer, map newTask [demoRequest ''/api/canary'' None, demoRequest ''/api/canary'' None])
      = (fst (run demoEnv [0, 1, 0, 1, 0, 1]
           (demoServer, map newTask [demoRequest ''/api/canary'' None, demoRequest ''/api/canary'' None])),
         snd (run demoEnv [0, 1, 0, 1, 0, 1]
           (demoServer, map newTask [demoRequest ''/api/canary'' None, demoRequest ''/api/canary'' None])))"
    by simp
  have c: "canaryByDecision (snd (run demoEnv [0, 1, 0, 1, 0, 1]
        (demoServer, map newTask [demoRequest ''/api/canary'' None, demoRequest ''/api/canary'' None])))
       = 1"
    by (simp add: eval_defs)
  from canary_quota_bound[OF h r] c
  have "canaryBucket (fst (run demoEnv [0, 1, 0, 1, 0, 1]
        (demoServer, map newTask [demoRequest ''/api/canary'' None, demoRequest ''/api/canary'' None])))
       = Some 0"
    by (auto simp add: demoConfig_def)
  then show ?thesis using h c by (simp add: eval_defs)
qed

section \<open>Results on the request body\<close>











section \<open>The pre-check on a reachable server\<close>

lemma precheck_when_exhausted:
  assumes "SidecarURL (config s) \<noteq> []"
    and "canaryBucket s = Some b" and "b \<le> 0"
    and "xCanaryHeader req \<noteq> Some ''true''" and "xCanaryHeader req \<noteq> Some ''false''"
  shows "\<exists>fx'. viaProxy e s req fx = (s, None, fx')
           \<and> forwarded fx' = forwarded fx
                @ [(''main'', fst (setRoutingReason e (trimmed s req) ''Canary limit reached'' fx))]
           \<and> reasons fx' = reasons fx @ [''Canary limit reached'']
           \<and> sidecarCalls fx' = sidecarCalls fx"
  using assms(1,2,3)
  by (simp add: no_override[OF assms(4,5)] handlerFunc_def isSidecarProvided_def split_beta
      viaProxyWithSidecar_def precheck_def IsCanaryLimited_def Available_def serveMain_fx
      setRoutingReason_fx)

text \<open>Without a sidecar every task finishes in its first step and the server is never changed.\<close>

lemma advance_no_sidecar:
  assumes "\<not> isSidecarProvided s" and "phase t = AtEntry \<or> phase t = Finished"
  shows "fst (advance e s t) = s \<and> phase (snd (advance e s t)) = Finished"
  using assms
  by (auto simp add: advance_def Let_def split_beta split: sum.splits)

lemma run_no_sidecar:
  assumes "\<not> isSidecarProvided s" and "\<forall>t\<in>set ts. phase t = AtEntry \<or> phase t = Finished"
  shows "fst (run e sched (s, ts)) = s"
  using assms(2)
proof (induction sched arbitrary: ts)
  case Nil
  then show ?case by simp
next
  case (Cons i sched)
  show ?case
  proof (cases "i < length ts")
    case False
    then show ?thesis using Cons.IH[OF Cons.prems] by simp
  next
    case True
    have "phase (ts ! i) = AtEntry \<or> phase (ts ! i) = Finished"
      using Cons.prems True by simp
    from advance_no_sidecar[OF assms(1) this, of e]
    have adv: "fst (advance e s (ts ! i)) = s" "phase (snd (advance e s (ts ! i))) = Finished"
      by simp_all
    have "\<forall>t\<in>set (ts[i := snd (advance e s (ts ! i))]). phase t = AtEntry \<or> phase t = Finished"
      using Cons.prems adv(2) by (auto dest!: set_update_subset_insert[THEN subsetD])
    from Cons.IH[OF this] show ?thesis using True adv(1) by (simp add: split_beta Let_def)
  qed
qed

text \<open>
  C6. Let the server be built with a canary limit N > 0 and have reached, in any run, a
  state whose bucket is exhausted. A request that enters then without a valid override
  is forwarded to main with the reason \<open>Canary limit reached\<close>; the sidecar is not
  called and the server is left as it was.
\<close>

theorem precheck_exhausted:
  assumes "0 < RequestLimitCanary cfg" and "NewServer e cfg ver = Inr s0"
    and "run e sched (s0, map newTask reqs) = (s, ts)"
    and "canaryBucket s = Some b" and "b \<le> 0"
    and "xCanaryHeader req \<noteq> Some ''true''" and "xCanaryHeader req \<noteq> Some ''false''"
  shows "\<exists>fx'. viaProxy e s req fx = (s, None, fx')
           \<and> forwarded fx' = forwarded fx
                @ [(''main'', fst (setRoutingReason e (trimmed s req) ''Canary limit reached'' fx))]
           \<and> reasons fx' = reasons fx @ [''Canary limit reached'']
           \<and> sidecarCalls fx' = sidecarCalls fx"
proof -
  have s0: "canaryBucket s0 = Some (RequestLimitCanary cfg)" "config s0 = cfg"
    using assms(1,2) by (auto simp add: NewServer_def NewBucket_def split: if_splits)
  have start: "\<forall>t\<in>set (map newTask reqs). noOverride t"
    "\<forall>t\<in>set (map newTask reqs). phase t = AtEntry \<or> phase t = Finished"
    using newTask_start[of reqs] by (simp_all add: newTask_def)
  have nn: "0 \<le> RequestLimitCanary cfg" using assms(1) by simp
  from run_invariant[OF start(1) s0(1) nn, of e sched] assms(3) s0(2)
  have cfg: "config s = cfg" by auto
  have "SidecarURL cfg \<noteq> []"
  proof
    assume "SidecarURL cfg = []"
    then have "\<not> isSidecarProvided s0" using s0(2) by (simp add: isSidecarProvided_def)
    from run_no_sidecar[OF this start(2), of e sched] assms(3) have "s = s0" by simp
    then show False using s0(1) assms(1,4,5) by simp
  qed
  then have "SidecarURL (config s) \<noteq> []" using cfg by simp
  from precheck_when_exhausted[OF this assms(4,5,6,7)] show ?thesis .
qed

text \<open>The witness spends the only token on one request and then lets a second one enter.\<close>

theorem precheck_exhausted_witness:
  "0 < RequestLimitCanary demoConfig
   \<and> NewServer demoEnv demoConfig ''v1'' = Inr demoServer
   \<and> run demoEnv [0, 0, 0] (demoServer, map newTask [demoRequest ''/api/canary'' None])
       = (spentServer, snd (run demoEnv [0, 0, 0] (demoServer, map newTask [demoRequest ''/api/canary'' None])))
   \<and> canaryBucket spentServer = Some 0
   \<and> fst (viaProxy demoEnv spentServer (demoRequest ''/api/canary'' None) noEffects) = spentServer
   \<and> map fst (forwarded (snd (snd (viaProxy demoEnv spentServer (demoRequest ''/api/canary'' None) noEffects))))
       = [''main'']
   \<and> reasons (snd (snd (viaProxy demoEnv spentServer (demoRequest ''/api/canary'' None) noEffects)))
       = [''Canary limit reached'']
   \<and> sidecarCalls (snd (snd (viaProxy demoEnv spentServer (demoRequest ''/api/canary'' None) noEffects))) = []"
proof -
  have h: "0 < RequestLimitCanary demoConfig" "NewServer demoEnv demoConfig ''v1'' = Inr demoServer"
    by (simp_all add: NewServer_def NewBucket_def demoEnv_def demoConfig_def demoServer_def)
  have r: "run demoEnv [0, 0, 0] (demoServer, map newTask [demoRequest ''/api/canary'' None])
       = (spentServer, snd (run demoEnv [0, 0, 0] (demoServer, map newTask [demoRequest ''/api/canary'' None])))"
    by (simp add: eval_defs)
  have b: "canaryBucket spentServer = Some 0" "(0::int) \<le> 0"
    by (simp_all add: spentServer_def)
  have x: "xCanaryHeader (demoRequest ''/api/canary'' None) \<noteq> Some ''true''"
    "xCanaryHeader (demoRequest ''/api/canary'' None) \<noteq> Some ''false''"
    by (simp_all add: demoRequest_def)
  from precheck_exhausted[OF h r b x, of noEffects]
  have "fst (viaProxy demoEnv spentServer (demoRequest ''/api/canary'' None) noEffects) = spentServer"
    "sidecarCalls (snd (snd (viaProxy demoEnv spentServer (demoRequest ''/api/canary'' None) noEffects))) = []"
    by (auto simp add: noEffects_def)
  then show ?thesis using h r b by (simp add: eval_defs)
qed

end
